theory Spec2Isabelle
  imports Complex_Main
begin

section \<open>JavaScript values and strings\<close>

text \<open>
  The dashboard is written in JavaScript. A string is modelled as the list of the bytes
  of its UTF-8 encoding, which is the form in which both \<open>encodeURIComponent\<close> and
  \<open>URLSearchParams\<close> percent-encode it. The values a caller can put into a parameter
  object are the primitive ones; the numbers that occur (page, page size, year, record
  id, HTTP status) are integers.
\<close>

datatype jsval = Undefined | Null | Bool bool | Num int | Str string

fun truthy :: "jsval \<Rightarrow> bool" where
  "truthy Undefined = False"
| "truthy Null = False"
| "truthy (Bool b) = b"
| "truthy (Num n) = (n \<noteq> 0)"
| "truthy (Str s) = (s \<noteq> [])"

definition digit_char :: "nat \<Rightarrow> char" where
  "digit_char d = ''0123456789'' ! d"

fun show_nat :: "nat \<Rightarrow> string" where
  "show_nat n = (if n < 10 then [digit_char n] else show_nat (n div 10) @ [digit_char (n mod 10)])"

definition show_int :: "int \<Rightarrow> string" where
  "show_int i = (if i < 0 then CHR ''-'' # show_nat (nat (- i)) else show_nat (nat i))"

text \<open>\<open>String(v)\<close>, the conversion a template literal and \<open>append\<close> apply.\<close>

fun to_string :: "jsval \<Rightarrow> string" where
  "to_string Undefined = ''undefined''"
| "to_string Null = ''null''"
| "to_string (Bool b) = (if b then ''true'' else ''false'')"
| "to_string (Num n) = show_int n"
| "to_string (Str s) = s"

definition alnum :: "char list" where
  "alnum = ''ABCDEFGHIJKLMNOPQRSTUVWXYZabcdefghijklmnopqrstuvwxyz0123456789''"

definition hex_digit :: "nat \<Rightarrow> char" where
  "hex_digit d = ''0123456789ABCDEF'' ! d"

definition pct :: "char \<Rightarrow> string" where
  "pct c = [CHR ''%'', hex_digit (of_char c div 16), hex_digit (of_char c mod 16)]"

text \<open>
  \<open>encodeURIComponent\<close> (ECMAScript): every byte is escaped as \<open>%XX\<close> except the
  letters, the digits and \<open>- _ . ! ~ * ' ( )\<close>.
\<close>

definition uri_unescaped :: "char list" where
  "uri_unescaped = alnum @ ''-_.!~*()'' @ [CHR 0x27]"

definition encodeURIComponent :: "string \<Rightarrow> string" where
  "encodeURIComponent s = concat (map (\<lambda>c. if c \<in> set uri_unescaped then [c] else pct c) s)"

text \<open>
  \<open>URLSearchParams\<close>: an ordered list of name/value pairs; \<open>append\<close> converts the value
  to a string and adds the pair at the end; \<open>toString\<close> is the
  \<open>application/x-www-form-urlencoded\<close> serialiser (letters, digits and \<open>* - . _\<close>
  are kept, a space becomes \<open>+\<close>, every other byte is escaped), pairs joined by \<open>&\<close>.
\<close>

type_synonym search_params = "(string \<times> string) list"

definition append :: "search_params \<Rightarrow> string \<Rightarrow> jsval \<Rightarrow> search_params" where
  "append q name v = q @ [(name, to_string v)]"

definition form_encode :: "string \<Rightarrow> string" where
  "form_encode s = concat (map (\<lambda>c. if c \<in> set (alnum @ ''*-._'') then [c]
                                     else if c = CHR '' '' then ''+'' else pct c) s)"

fun join_amp :: "string list \<Rightarrow> string" where
  "join_amp [] = []"
| "join_amp [x] = x"
| "join_amp (x # y # ys) = x @ ''&'' @ join_amp (y # ys)"

definition toString :: "search_params \<Rightarrow> string" where
  "toString q = join_amp (map (\<lambda>(k, v). form_encode k @ ''='' @ form_encode v) q)"

section \<open>API client\<close>

text \<open>
  Every client function builds an endpoint (and, for writes, a method and a body) and
  hands it to \<open>apiFetch\<close>. The request built is modelled by the functions below; the
  reply of the network is an input of \<open>apiFetch\<close>.
\<close>

record records_query =
  q_commune :: jsval
  q_region :: jsval
  q_annee :: jsval
  q_page :: jsval
  q_page_size :: jsval

definition getRecords_queryParams :: "records_query \<Rightarrow> search_params" where
  "getRecords_queryParams params =
    (let q0 = [];
         q1 = (if truthy (q_commune params) then append q0 ''commune'' (q_commune params) else q0);
         q2 = (if truthy (q_region params) then append q1 ''region'' (q_region params) else q1);
         q3 = (if truthy (q_annee params) then append q2 ''annee'' (q_annee params) else q2);
         q4 = (if truthy (q_page params) then append q3 ''page'' (q_page params) else q3);
         q5 = (if truthy (q_page_size params) then append q4 ''page_size'' (q_page_size params) else q4)
     in q5)"

definition getRecords_endpoint :: "records_query \<Rightarrow> string" where
  "getRecords_endpoint params =
    (let queryString = toString (getRecords_queryParams params)
     in ''/records'' @ (if queryString \<noteq> [] then ''?'' @ queryString else []))"

text \<open>Parsed JSON; the numbers that occur are integers.\<close>

datatype json = JNull | JBool bool | JNum int | JStr string | JArr "json list"
  | JObj "(string \<times> json) list"

record api_request =
  req_endpoint :: string
  req_method :: "string option"
  req_body :: "json option"

definition getRecords :: "records_query \<Rightarrow> api_request" where
  "getRecords params = \<lparr>req_endpoint = getRecords_endpoint params, req_method = None, req_body = None\<rparr>"

text \<open>
  The identifier of a record and the pollutant are put into the path by a template
  literal, which applies \<open>String\<close> and nothing else; the names of a region and of
  a commune go through \<open>encodeURIComponent\<close>.
\<close>

definition getRecordById :: "jsval \<Rightarrow> api_request" where
  "getRecordById rid = \<lparr>req_endpoint = ''/records/'' @ to_string rid, req_method = None, req_body = None\<rparr>"

definition createRecord :: "json \<Rightarrow> api_request" where
  "createRecord recordData =
     \<lparr>req_endpoint = ''/records'', req_method = Some ''POST'', req_body = Some recordData\<rparr>"

definition updateRecord :: "jsval \<Rightarrow> json \<Rightarrow> api_request" where
  "updateRecord rid updateData =
     \<lparr>req_endpoint = ''/records/'' @ to_string rid, req_method = Some ''PUT'', req_body = Some updateData\<rparr>"

definition deleteRecord :: "jsval \<Rightarrow> api_request" where
  "deleteRecord rid =
     \<lparr>req_endpoint = ''/records/'' @ to_string rid, req_method = Some ''DELETE'', req_body = None\<rparr>"

definition getRegions :: api_request where
  "getRegions = \<lparr>req_endpoint = ''/regions'', req_method = None, req_body = None\<rparr>"

definition getYears :: api_request where
  "getYears = \<lparr>req_endpoint = ''/years'', req_method = None, req_body = None\<rparr>"

definition getSummary :: api_request where
  "getSummary = \<lparr>req_endpoint = ''/summary'', req_method = None, req_body = None\<rparr>"

definition getRegionStats :: "jsval \<Rightarrow> jsval \<Rightarrow> api_request" where
  "getRegionStats region annee =
    (let queryString = (if truthy annee then ''?annee='' @ to_string annee else [])
     in \<lparr>req_endpoint = ''/stats/region/'' @ encodeURIComponent (to_string region) @ queryString,
         req_method = None, req_body = None\<rparr>)"

definition getCommuneStats :: "jsval \<Rightarrow> api_request" where
  "getCommuneStats commune =
     \<lparr>req_endpoint = ''/stats/commune/'' @ encodeURIComponent (to_string commune),
      req_method = None, req_body = None\<rparr>"

record trend_query =
  t_region :: jsval
  t_commune :: jsval

definition getPollutantTrend :: "jsval \<Rightarrow> trend_query \<Rightarrow> api_request" where
  "getPollutantTrend pollutant params =
    (let q0 = [];
         q1 = (if truthy (t_region params) then append q0 ''region'' (t_region params) else q0);
         q2 = (if truthy (t_commune params) then append q1 ''commune'' (t_commune params) else q1);
         queryString = toString q2
     in \<lparr>req_endpoint = ''/trends/'' @ to_string pollutant
                       @ (if queryString \<noteq> [] then ''?'' @ queryString else []),
         req_method = None, req_body = None\<rparr>)"

subsection \<open>The fetch wrapper\<close>

text \<open>
  \<open>apiFetch\<close> asks \<open>fetch\<close> for the endpoint under the base URL, with the
  options of the caller over a JSON content type.
\<close>

definition API_BASE_URL :: "string \<Rightarrow> string" where
  "API_BASE_URL hostname =
    (if hostname = ''localhost'' then ''http://localhost:8000/api/v1'' else ''/api/v1'')"

definition url :: "string \<Rightarrow> string \<Rightarrow> string" where
  "url hostname endpoint = API_BASE_URL hostname @ endpoint"

text \<open>
  \<open>fetch\<close> either rejects (no response reached the client) or resolves to a response
  with a status; \<open>response.ok\<close> is the status being in 200..299. \<open>response.json()\<close>
  either rejects (the body is not JSON) or yields the parsed value. What \<open>fetch\<close>
  answers is an input of the model.
\<close>

datatype js_error = Error string | TypeError string

record response =
  status :: int
  json_body :: "js_error + json"



datatype console = ConsoleError string js_error










section \<open>Colour coding and trend analysis\<close>

text \<open>
  Looking a key up in an object literal finds the literal's own entries first and then
  the properties every object inherits from \<open>Object.prototype\<close>, which are functions
  or objects and hence truthy.
\<close>

datatype 'a property = Own 'a | Inherited | Missing

definition object_prototype :: "string list" where
  "object_prototype =
     [''constructor'', ''hasOwnProperty'', ''isPrototypeOf'', ''propertyIsEnumerable'',
      ''toLocaleString'', ''toString'', ''valueOf'', ''__proto__'', ''__defineGetter__'',
      ''__defineSetter__'', ''__lookupGetter__'', ''__lookupSetter__'']"

definition lookup :: "(string \<times> 'a) list \<Rightarrow> string \<Rightarrow> 'a property" where
  "lookup literal key =
    (case map_of literal key of
       Some v \<Rightarrow> Own v
     | None \<Rightarrow> if key \<in> set object_prototype then Inherited else Missing)"

text \<open>Concentrations are JavaScript numbers; they are modelled as reals.\<close>

record threshold =
  low :: real
  high :: real

definition thresholds :: "(string \<times> threshold) list" where
  "thresholds =
     [(''no2'', \<lparr>low = 20, high = 40\<rparr>),
      (''pm10'', \<lparr>low = 15, high = 45\<rparr>),
      (''pm25'', \<lparr>low = 10, high = 25\<rparr>),
      (''o3'', \<lparr>low = 60, high = 100\<rparr>)]"

text \<open>
  \<open>getColorForValue(value, pollutant)\<close>. For an inherited key \<open>t\<close> is a function,
  \<open>t.low\<close> and \<open>t.high\<close> are \<open>undefined\<close> and both comparisons are false.
\<close>

definition getColorForValue :: "real \<Rightarrow> string \<Rightarrow> string" where
  "getColorForValue v pollutant =
    (case lookup thresholds pollutant of
       Inherited \<Rightarrow> ''#ef4444''
     | Own t \<Rightarrow>
         if v \<le> low t then ''#22c55e'' else if v \<le> high t then ''#f59e0b'' else ''#ef4444''
     | Missing \<Rightarrow>
         if v \<le> 20 then ''#22c55e'' else if v \<le> 40 then ''#f59e0b'' else ''#ef4444'')"

text \<open>
  A number of the trend analysis: a real, or one of the three values a division by zero
  gives. \<open>toFixed(1)\<close> renders a finite number with one decimal, rounding to the nearest
  tenth and a tie away from zero; the rendering is kept as the number of tenths. Where
  the rendered string is compared with a number it is read back as that many tenths.
\<close>

datatype number = Finite real | PosInfinity | NegInfinity | NaN

datatype fixed = Tenths int | FixedInfinity | FixedNegInfinity | FixedNaN

definition divide_js :: "real \<Rightarrow> real \<Rightarrow> number" where
  "divide_js x y =
    (if y \<noteq> 0 then Finite (x / y)
     else if x > 0 then PosInfinity else if x < 0 then NegInfinity else NaN)"

fun times_js :: "number \<Rightarrow> real \<Rightarrow> number" where
  "times_js (Finite x) k = Finite (x * k)"
| "times_js PosInfinity k = (if k > 0 then PosInfinity else if k < 0 then NegInfinity else NaN)"
| "times_js NegInfinity k = (if k > 0 then NegInfinity else if k < 0 then PosInfinity else NaN)"
| "times_js NaN k = NaN"

definition round_tenths :: "real \<Rightarrow> int" where
  "round_tenths x = (if x < 0 then - \<lfloor>(- x) * 10 + 1 / 2\<rfloor> else \<lfloor>x * 10 + 1 / 2\<rfloor>)"

fun toFixed :: "number \<Rightarrow> fixed" where
  "toFixed (Finite x) = Tenths (round_tenths x)"
| "toFixed PosInfinity = FixedInfinity"
| "toFixed NegInfinity = FixedNegInfinity"
| "toFixed NaN = FixedNaN"

text \<open>\<open>change < k\<close> and \<open>change > k\<close> for the rendered \<open>change\<close> and an integer \<open>k\<close>.\<close>

fun fixed_less :: "fixed \<Rightarrow> int \<Rightarrow> bool" where
  "fixed_less (Tenths t) k = (t < 10 * k)"
| "fixed_less FixedNegInfinity k = True"
| "fixed_less FixedInfinity k = False"
| "fixed_less FixedNaN k = False"

fun fixed_greater :: "fixed \<Rightarrow> int \<Rightarrow> bool" where
  "fixed_greater (Tenths t) k = (t > 10 * k)"
| "fixed_greater FixedInfinity k = True"
| "fixed_greater FixedNegInfinity k = False"
| "fixed_greater FixedNaN k = False"

record trend_point =
  tp_annee :: int
  tp_value :: "real option"

text \<open>
  The five wordings of the trend sentence; the falling and rising ones quote the
  rendered change.
\<close>

datatype trend =
    SignificantDecrease fixed
  | SlightDecrease fixed
  | ConcerningIncrease fixed
  | SlightIncrease fixed
  | Stable

datatype pollutant_name = NO2 | PM10 | PM25 | O3

definition pollutant_names :: "(string \<times> pollutant_name) list" where
  "pollutant_names = [(''no2'', NO2), (''pm10'', PM10), (''pm25'', PM25), (''o3'', O3)]"

record report =
  heading :: "pollutant_name property"
  tendency :: trend
  average :: fixed
  maximum :: fixed
  minimum :: fixed
  first_value :: fixed
  last_value :: fixed

datatype analysis = Insufficient | Report report

text \<open>
  \<open>analyzeTrend(trendData, pollutant)\<close>; \<open>None\<close> is a missing (falsy) \<open>trendData\<close>.
  The heading is the name found for the pollutant, or the pollutant string itself
  (\<open>Missing\<close>) when there is none.
\<close>

definition analyzeTrend :: "trend_point list option \<Rightarrow> string \<Rightarrow> analysis" where
  "analyzeTrend trendData pollutant =
    (case trendData of
       None \<Rightarrow> Insufficient
     | Some points \<Rightarrow>
        if length points < 2 then Insufficient
        else
          let values = map (\<lambda>d. the (tp_value d)) (filter (\<lambda>d. tp_value d \<noteq> None) points)
          in if length values < 2 then Insufficient
             else
               let firstValue = hd values;
                   lastValue = last values;
                   change = toFixed (times_js (divide_js (lastValue - firstValue) firstValue) 100);
                   avg = toFixed (Finite (sum_list values / real (length values)));
                   max = toFixed (Finite (Max (set values)));
                   min = toFixed (Finite (Min (set values)));
                   trend =
                     (if fixed_less change (- 10) then SignificantDecrease change
                      else if fixed_less change 0 then SlightDecrease change
                      else if fixed_greater change 10 then ConcerningIncrease change
                      else if fixed_greater change 0 then SlightIncrease change
                      else Stable)
               in Report \<lparr>heading = lookup pollutant_names pollutant, tendency = trend,
                           average = avg, maximum = max, minimum = min,
                           first_value = toFixed (Finite firstValue),
                           last_value = toFixed (Finite lastValue)\<rparr>)"


section \<open>Application state and event handlers\<close>

text \<open>
  \<open>AppState\<close> is the one mutable object of the page. The records and the totals are
  what the backend returns for \<open>/records\<close>: an object with a \<open>data\<close> array and a
  \<open>total\<close>. The field \<open>total\<close> of the cursor is \<open>total_count\<close> here, and
  \<open>map_obj\<close> says whether \<open>AppState.map\<close> holds a map.
\<close>

record air_record =
  rec_id :: int
  rec_commune :: string
  rec_region :: string
  rec_annee :: int
  no2 :: "real option"
  pm10 :: "real option"
  pm25 :: "real option"
  o3 :: "real option"
  latitude :: "real option"
  longitude :: "real option"

record pagination =
  page :: int
  pageSize :: int
  total_count :: int

record filters =
  region :: string
  year :: string
  commune :: string

record summary =
  total_records :: int
  total_communes :: int
  total_regions :: int

record marker =
  position :: "real \<times> real"
  fillColor :: string
  popup :: "air_record \<times> string \<times> real"

record app_state =
  currentPage :: string
  data :: "air_record list"
  regions :: "string list"
  years :: "int list"
  summary :: "summary option"
  pagination :: pagination
  filters :: filters
  map_obj :: bool
  mapMarkers :: "marker list"

definition AppState :: app_state where
  "AppState =
     \<lparr>currentPage = ''dashboard'', data = [], regions = [], years = [], summary = None,
      pagination = \<lparr>page = 1, pageSize = 20, total_count = 0\<rparr>,
      filters = \<lparr>region = [], year = [], commune = []\<rparr>,
      map_obj = False, mapMarkers = []\<rparr>"

record records_result =
  r_data :: "air_record list"
  r_total :: int

text \<open>
  What the page does to the outside: calls of the API client, console output, toasts
  and the redrawing of a view. A renderer is recorded with the snapshot it draws. The
  toast texts are, in the order of the constructors: "Impossible de se connecter a
  l'API", "Erreur lors du chargement des donnees", "Erreur lors du chargement des
  enregistrements", "Erreur lors du chargement des tendances", "Enregistrement supprime",
  "Erreur lors de la suppression". A toast removes itself after three seconds; that
  timer is not part of the model.
\<close>

datatype toast_message =
    CannotConnect | InitialLoadFailed | RecordsLoadFailed | TrendLoadFailed
  | RecordDeleted | DeleteFailed

datatype toast_type = ToastSuccess | ToastError | ToastInfo

record pagination_info =
  shown_page :: int
  shown_maxPage :: int
  shown_total :: int
  prev_disabled :: bool
  next_disabled :: bool

datatype effect =
    HealthRequest
  | Request api_request
  | Log console
  | ShowLoading bool
  | ShowToast toast_message toast_type
  | ApiStatus bool
  | PopulateFilters "string list" "int list"
  | UpdateDataTable "air_record list"
  | UpdatePaginationInfo pagination_info
  | UpdateDashboardStats "air_record list" "summary option"
  | CreateEvolutionChart "air_record list"
  | CreateRegionsChart "air_record list"
  | CreateMap
  | MapMarkers "marker list"
  | CreateTrendChart "trend_point list" string
  | TrendAnalysis analysis

text \<open>
  An \<open>async\<close> function runs until its \<open>await\<close> and is resumed when the awaited
  promise settles; other events are handled in between. A promise that has not settled
  is kept with what its awaiter does next: after \<open>await loadRecords()\<close> the two
  dashboard filter handlers redraw the dashboard views, \<open>loadInitialData\<close> does the
  same and ends the loading, every other caller does nothing more.
\<close>

datatype follow_up = NoFollowUp | DashboardViews | InitialViews

datatype pending =
    AwaitHealth
  | AwaitMetadata
  | AwaitRecords api_request follow_up
  | AwaitDelete
  | AwaitTrend string

datatype reply =
    Health bool
  | Metadata "js_error + string list \<times> int list \<times> summary"
  | Records "js_error + records_result"
  | Deleted "js_error option"
  | Trend "js_error + trend_point list"

text \<open>
  The values of the map and trend selectors are read from the document when a handler
  runs; they come with the event.
\<close>

record controls =
  map_pollutant :: string
  map_year :: string
  trend_pollutant :: string
  trend_region :: string

record app =
  state :: app_state
  pending :: "pending list"
  debounce_timer :: "string option"
  trace :: "effect list"

definition emit :: "effect list \<Rightarrow> app \<Rightarrow> app" where
  "emit es a = a\<lparr>trace := trace a @ es\<rparr>"

definition assign_filters :: "(filters \<Rightarrow> filters) \<Rightarrow> app \<Rightarrow> app" where
  "assign_filters f a = a\<lparr>state := (state a)\<lparr>filters := f (filters (state a))\<rparr>\<rparr>"

definition assign_page :: "int \<Rightarrow> app \<Rightarrow> app" where
  "assign_page n a =
     a\<lparr>state := (state a)\<lparr>pagination := (pagination (state a))\<lparr>page := n\<rparr>\<rparr>\<rparr>"

subsection \<open>Renderers\<close>

definition updateDataTable :: "app \<Rightarrow> app" where
  "updateDataTable a = emit [UpdateDataTable (data (state a))] a"

text \<open>
  \<open>Math.ceil(total / pageSize)\<close>. The page size is never assigned and stays 20, so the
  division is by a positive number.
\<close>

definition ceil_pages :: "pagination \<Rightarrow> int" where
  "ceil_pages p = \<lceil>real_of_int (total_count p) / real_of_int (pageSize p)\<rceil>"

definition pagination_view :: "pagination \<Rightarrow> pagination_info" where
  "pagination_view p =
    (let maxPage = (if ceil_pages p \<noteq> 0 then ceil_pages p else 1)
     in \<lparr>shown_page = page p, shown_maxPage = maxPage, shown_total = total_count p,
         prev_disabled = (page p \<le> 1), next_disabled = (page p \<ge> maxPage)\<rparr>)"

definition updatePaginationInfo :: "app \<Rightarrow> app" where
  "updatePaginationInfo a =
     emit [UpdatePaginationInfo (pagination_view (pagination (state a)))] a"

definition updateDashboardStats :: "app \<Rightarrow> app" where
  "updateDashboardStats a = emit [UpdateDashboardStats (data (state a)) (summary (state a))] a"

definition createDashboardCharts :: "app \<Rightarrow> app" where
  "createDashboardCharts a =
    (if data (state a) = [] then a
     else emit [CreateEvolutionChart (data (state a)), CreateRegionsChart (data (state a))] a)"

definition populateFilters :: "app \<Rightarrow> app" where
  "populateFilters a = emit [PopulateFilters (regions (state a)) (years (state a))] a"

text \<open>
  \<open>record[pollutant]\<close> for the pollutants the selector offers, and the truthiness of
  an optional number (\<open>null\<close> and 0 are falsy).
\<close>

definition reading :: "air_record \<Rightarrow> string \<Rightarrow> real option" where
  "reading r pollutant =
    (if pollutant = ''no2'' then no2 r else if pollutant = ''pm10'' then pm10 r
     else if pollutant = ''pm25'' then pm25 r else if pollutant = ''o3'' then o3 r
     else None)"

definition present :: "real option \<Rightarrow> bool" where
  "present x = (case x of None \<Rightarrow> False | Some v \<Rightarrow> v \<noteq> 0)"

text \<open>
  \<open>updateMapMarkers\<close>: nothing without a map; otherwise the old markers are removed
  and one marker is drawn for each record of the page, of the chosen year if one is
  chosen, that has coordinates and a reading. The year selector holds the decimal
  rendering of a year, or the empty string.
\<close>

definition updateMapMarkers :: "controls \<Rightarrow> app \<Rightarrow> app" where
  "updateMapMarkers c a =
    (if \<not> map_obj (state a) then a
     else
       let pollutant = (if map_pollutant c \<noteq> [] then map_pollutant c else ''no2'');
           yearFilter = map_year c;
           filteredData =
             (if yearFilter \<noteq> [] then filter (\<lambda>d. show_int (rec_annee d) = yearFilter) (data (state a))
              else data (state a));
           markers =
             map (\<lambda>r. \<lparr>position = (the (latitude r), the (longitude r)),
                        fillColor = getColorForValue (the (reading r pollutant)) pollutant,
                        popup = (r, pollutant, the (reading r pollutant))\<rparr>)
               (filter (\<lambda>r. present (latitude r) \<and> present (longitude r)
                             \<and> present (reading r pollutant)) filteredData)
       in emit [MapMarkers markers] (a\<lparr>state := (state a)\<lparr>mapMarkers := markers\<rparr>\<rparr>))"

subsection \<open>Loading records\<close>

text \<open>
  \<open>loadRecords\<close> up to its \<open>await\<close>: the request is built from the filters and the
  cursor as they are at the call.
\<close>

definition records_request :: "app_state \<Rightarrow> api_request" where
  "records_request s =
     getRecords \<lparr>q_commune = Str (commune (filters s)), q_region = Str (region (filters s)),
                 q_annee = Str (year (filters s)), q_page = Num (page (pagination s)),
                 q_page_size = Num (pageSize (pagination s))\<rparr>"

definition loadRecords :: "follow_up \<Rightarrow> app \<Rightarrow> app" where
  "loadRecords cont a =
     emit [Request (records_request (state a))]
       (a\<lparr>pending := pending a @ [AwaitRecords (records_request (state a)) cont]\<rparr>)"

text \<open>\<open>loadRecords\<close> after its \<open>await\<close>: the rest of the \<open>try\<close> block, or the \<open>catch\<close>.\<close>

definition loadRecords_resumed :: "js_error + records_result \<Rightarrow> app \<Rightarrow> app" where
  "loadRecords_resumed outcome a =
    (case outcome of
       Inr result \<Rightarrow>
         updatePaginationInfo (updateDataTable
           (a\<lparr>state := (state a)
                 \<lparr>data := r_data result,
                  pagination := (pagination (state a))\<lparr>total_count := r_total result\<rparr>\<rparr>\<rparr>))
     | Inl error \<Rightarrow>
         emit [Log (ConsoleError ''Error loading records:'' error),
               ShowToast RecordsLoadFailed ToastError] a)"

definition after_loadRecords :: "follow_up \<Rightarrow> app \<Rightarrow> app" where
  "after_loadRecords cont a =
    (case cont of
       NoFollowUp \<Rightarrow> a
     | DashboardViews \<Rightarrow> createDashboardCharts (updateDashboardStats a)
     | InitialViews \<Rightarrow> emit [ShowLoading False] (createDashboardCharts (updateDashboardStats a)))"


subsection \<open>Filters and pagination\<close>

text \<open>
  The handlers of \<open>setupFilters\<close>. The two dashboard selectors and the two controls of
  the data page assign the filter, set the page to 1 and load the records; only the
  dashboard ones redraw the dashboard when the load is over.
\<close>

definition filter_region_change :: "string \<Rightarrow> app \<Rightarrow> app" where
  "filter_region_change v a =
     loadRecords DashboardViews (assign_page 1 (assign_filters (\<lambda>f. f\<lparr>region := v\<rparr>) a))"

definition filter_year_change :: "string \<Rightarrow> app \<Rightarrow> app" where
  "filter_year_change v a =
     loadRecords DashboardViews (assign_page 1 (assign_filters (\<lambda>f. f\<lparr>year := v\<rparr>) a))"

definition data_region_change :: "string \<Rightarrow> app \<Rightarrow> app" where
  "data_region_change v a =
     loadRecords NoFollowUp (assign_page 1 (assign_filters (\<lambda>f. f\<lparr>region := v\<rparr>) a))"

definition search_commune_handler :: "string \<Rightarrow> app \<Rightarrow> app" where
  "search_commune_handler v a =
     loadRecords NoFollowUp (assign_page 1 (assign_filters (\<lambda>f. f\<lparr>commune := v\<rparr>) a))"

text \<open>
  \<open>debounce(func, 300)\<close>: an input event clears the timer and starts a new one that
  holds the event; when the timer runs out the handler is called with it.
\<close>

definition search_commune_input :: "string \<Rightarrow> app \<Rightarrow> app" where
  "search_commune_input v a = a\<lparr>debounce_timer := Some v\<rparr>"

definition debounce_later :: "app \<Rightarrow> app" where
  "debounce_later a =
    (case debounce_timer a of
       None \<Rightarrow> a
     | Some v \<Rightarrow> search_commune_handler v (a\<lparr>debounce_timer := None\<rparr>))"

text \<open>The handlers of \<open>setupPagination\<close>; \<open>loadRecords\<close> is not awaited.\<close>

definition btn_prev_click :: "app \<Rightarrow> app" where
  "btn_prev_click a =
    (if page (pagination (state a)) > 1
     then loadRecords NoFollowUp (assign_page (page (pagination (state a)) - 1) a)
     else a)"

definition btn_next_click :: "app \<Rightarrow> app" where
  "btn_next_click a =
    (let maxPage = ceil_pages (pagination (state a))
     in if page (pagination (state a)) < maxPage
        then loadRecords NoFollowUp (assign_page (page (pagination (state a)) + 1) a)
        else a)"

subsection \<open>Map, trends, deletion and start\<close>

definition initializeMap :: "controls \<Rightarrow> app \<Rightarrow> app" where
  "initializeMap c a =
    (if map_obj (state a) then a
     else updateMapMarkers c (emit [CreateMap] (a\<lparr>state := (state a)\<lparr>map_obj := True\<rparr>\<rparr>)))"

definition trend_request :: "controls \<Rightarrow> string \<times> api_request" where
  "trend_request c =
    (let pollutant = (if trend_pollutant c \<noteq> [] then trend_pollutant c else ''no2'');
         region = (if trend_region c \<noteq> [] then trend_region c else [])
     in (pollutant, getPollutantTrend (Str pollutant) \<lparr>t_region = Str region, t_commune = Undefined\<rparr>))"

definition loadTrendData :: "controls \<Rightarrow> app \<Rightarrow> app" where
  "loadTrendData c a =
     emit [Request (snd (trend_request c))]
       (a\<lparr>pending := pending a @ [AwaitTrend (fst (trend_request c))]\<rparr>)"

definition loadTrendData_resumed :: "string \<Rightarrow> js_error + trend_point list \<Rightarrow> app \<Rightarrow> app" where
  "loadTrendData_resumed pollutant outcome a =
    (case outcome of
       Inr points \<Rightarrow>
         emit [CreateTrendChart points pollutant,
               TrendAnalysis (analyzeTrend (Some points) pollutant)] a
     | Inl error \<Rightarrow>
         emit [Log (ConsoleError ''Error loading trend data:'' error),
               ShowToast TrendLoadFailed ToastError] a)"

definition navigateTo :: "string \<Rightarrow> controls \<Rightarrow> app \<Rightarrow> app" where
  "navigateTo p c a =
    (let a1 = a\<lparr>state := (state a)\<lparr>currentPage := p\<rparr>\<rparr>
     in if p = ''map'' then initializeMap c a1
        else if p = ''trends'' then loadTrendData c a1
        else a1)"

text \<open>\<open>handleDeleteRecord(id)\<close>; the boolean is the answer to the confirmation.\<close>

definition handleDeleteRecord :: "int \<Rightarrow> bool \<Rightarrow> app \<Rightarrow> app" where
  "handleDeleteRecord rid confirmed a =
    (if \<not> confirmed then a
     else emit [Request (deleteRecord (Num rid))] (a\<lparr>pending := pending a @ [AwaitDelete]\<rparr>))"

definition handleDeleteRecord_resumed :: "js_error option \<Rightarrow> app \<Rightarrow> app" where
  "handleDeleteRecord_resumed outcome a =
    (case outcome of
       None \<Rightarrow> loadRecords NoFollowUp (emit [ShowToast RecordDeleted ToastSuccess] a)
     | Some error \<Rightarrow>
         emit [Log (ConsoleError ''Error deleting record:'' error),
               ShowToast DeleteFailed ToastError] a)"

text \<open>
  The page starts by registering the handlers and asking for the health of the API;
  \<open>checkApiHealth\<close> never rejects. When the answer is there the initial data are loaded:
  regions, years and summary together, then the first page of records.
\<close>

definition init :: app where
  "init = \<lparr>state = AppState, pending = [AwaitHealth], debounce_timer = None,
           trace = [HealthRequest]\<rparr>"

definition loadInitialData :: "app \<Rightarrow> app" where
  "loadInitialData a =
     emit [ShowLoading True, Request getRegions, Request getYears, Request getSummary]
       (a\<lparr>pending := pending a @ [AwaitMetadata]\<rparr>)"

definition checkApiStatus_resumed :: "bool \<Rightarrow> app \<Rightarrow> app" where
  "checkApiStatus_resumed isHealthy a =
    loadInitialData
      (if isHealthy then emit [ApiStatus True] a
       else emit [ApiStatus False, ShowToast CannotConnect ToastError] a)"

definition loadInitialData_resumed ::
  "js_error + string list \<times> int list \<times> summary \<Rightarrow> app \<Rightarrow> app" where
  "loadInitialData_resumed outcome a =
    (case outcome of
       Inr (regionsData, yearsData, summaryData) \<Rightarrow>
         loadRecords InitialViews
           (populateFilters
             (a\<lparr>state := (state a)\<lparr>regions := regionsData, years := yearsData,
                                   summary := Some summaryData\<rparr>\<rparr>))
     | Inl error \<Rightarrow>
         emit [Log (ConsoleError ''Error loading initial data:'' error),
               ShowToast InitialLoadFailed ToastError, ShowLoading False] a)"

subsection \<open>The event loop\<close>

datatype event =
    FilterRegionChange string
  | FilterYearChange string
  | DataRegionChange string
  | SearchCommuneInput string
  | DebounceTimeout
  | RefreshClick
  | PrevClick
  | NextClick
  | MapControlChange controls
  | TrendControlChange controls
  | NavClick string controls
  | DeleteClick int bool
  | Settle nat reply

text \<open>
  A settled promise resumes its awaiter; a reply of another kind than the promise
  expects does not occur.
\<close>

fun resume :: "pending \<Rightarrow> reply \<Rightarrow> app \<Rightarrow> app option" where
  "resume AwaitHealth (Health b) a = Some (checkApiStatus_resumed b a)"
| "resume AwaitMetadata (Metadata outcome) a = Some (loadInitialData_resumed outcome a)"
| "resume (AwaitRecords request cont) (Records outcome) a =
     Some (after_loadRecords cont (loadRecords_resumed outcome a))"
| "resume AwaitDelete (Deleted outcome) a = Some (handleDeleteRecord_resumed outcome a)"
| "resume (AwaitTrend pollutant) (Trend outcome) a =
     Some (loadTrendData_resumed pollutant outcome a)"
| "resume _ _ a = None"

definition settle :: "nat \<Rightarrow> reply \<Rightarrow> app \<Rightarrow> app" where
  "settle i r a =
    (if i < length (pending a)
     then (case resume (pending a ! i) r
                  (a\<lparr>pending := take i (pending a) @ drop (Suc i) (pending a)\<rparr>) of
             Some a' \<Rightarrow> a'
           | None \<Rightarrow> a)
     else a)"

fun step :: "event \<Rightarrow> app \<Rightarrow> app" where
  "step (FilterRegionChange v) a = filter_region_change v a"
| "step (FilterYearChange v) a = filter_year_change v a"
| "step (DataRegionChange v) a = data_region_change v a"
| "step (SearchCommuneInput v) a = search_commune_input v a"
| "step DebounceTimeout a = debounce_later a"
| "step RefreshClick a = loadRecords NoFollowUp a"
| "step PrevClick a = btn_prev_click a"
| "step NextClick a = btn_next_click a"
| "step (MapControlChange c) a = updateMapMarkers c a"
| "step (TrendControlChange c) a = loadTrendData c a"
| "step (NavClick p c) a = navigateTo p c a"
| "step (DeleteClick rid confirmed) a = handleDeleteRecord rid confirmed a"
| "step (Settle i r) a = settle i r a"

definition run :: "event list \<Rightarrow> app \<Rightarrow> app" where
  "run es a = fold step es a"


text \<open>The effects of one event: what it adds to the trace.\<close>

definition effects_of :: "event \<Rightarrow> app \<Rightarrow> effect list" where
  "effects_of e a = drop (length (trace a)) (trace (step e a))"


subsection \<open>Scenarios\<close>

text \<open>
  What is on screen in the data table: the rows the last \<open>updateDataTable\<close> drew.
\<close>

definition rendered_page :: "app \<Rightarrow> air_record list option" where
  "rendered_page a =
    (case filter (\<lambda>x. case x of UpdateDataTable d \<Rightarrow> True | _ \<Rightarrow> False) (rev (trace a)) of
       UpdateDataTable d # _ \<Rightarrow> Some d
     | _ \<Rightarrow> None)"

text \<open>Two records, one page of each, and a start of the page that finds 45 records.\<close>

definition rec_A :: air_record where
  "rec_A = \<lparr>rec_id = 1, rec_commune = ''Rennes'', rec_region = ''A'', rec_annee = 2020,
            no2 = Some 15, pm10 = None, pm25 = None, o3 = None,
            latitude = Some 48.1, longitude = Some (- 1.7)\<rparr>"

definition rec_B :: air_record where
  "rec_B = \<lparr>rec_id = 2, rec_commune = ''Lyon'', rec_region = ''B'', rec_annee = 2020,
            no2 = Some 30, pm10 = None, pm25 = None, o3 = None,
            latitude = Some 45.8, longitude = Some 4.8\<rparr>"

definition page_A :: records_result where
  "page_A = \<lparr>r_data = [rec_A], r_total = 1\<rparr>"

definition page_B :: records_result where
  "page_B = \<lparr>r_data = [rec_B], r_total = 1\<rparr>"

definition startup :: "event list" where
  "startup =
     [Settle 0 (Health True),
      Settle 0 (Metadata (Inr ([''A'', ''B''], [2020],
                  \<lparr>total_records = 45, total_communes = 2, total_regions = 2\<rparr>))),
      Settle 0 (Records (Inr \<lparr>r_data = [rec_A, rec_B], r_total = 45\<rparr>))]"

definition started :: app where
  "started = run startup init"

text \<open>The region filter of the dashboard is changed twice before any reply arrives.\<close>

definition two_requests :: app where
  "two_requests = run [FilterRegionChange ''A'', FilterRegionChange ''B''] started"

definition request_A :: api_request where
  "request_A = getRecords \<lparr>q_commune = Str [], q_region = Str ''A'', q_annee = Str [],
                            q_page = Num 1, q_page_size = Num 20\<rparr>"

definition request_B :: api_request where
  "request_B = getRecords \<lparr>q_commune = Str [], q_region = Str ''B'', q_annee = Str [],
                            q_page = Num 1, q_page_size = Num 20\<rparr>"

text \<open>The map page has been opened, so the map exists.\<close>

definition map_controls :: controls where
  "map_controls = \<lparr>map_pollutant = ''no2'', map_year = [], trend_pollutant = ''no2'',
                    trend_region = []\<rparr>"

definition on_map :: app where
  "on_map = step (NavClick ''map'' map_controls) started"



section \<open>Properties of the API client\<close>

lemma toString_nonempty: "q \<noteq> [] \<Longrightarrow> toString q \<noteq> []"
proof -
  assume "q \<noteq> []"
  then obtain k v rest where q: "q = (k, v) # rest" by (cases q) auto
  show ?thesis by (cases rest) (simp_all add: q toString_def)
qed

lemma getRecords_queryParams_filter:
  "getRecords_queryParams p =
     map (\<lambda>(k, v). (k, to_string v))
       (filter (\<lambda>(k, v). truthy v)
          [(''commune'', q_commune p), (''region'', q_region p), (''annee'', q_annee p),
           (''page'', q_page p), (''page_size'', q_page_size p)])"
  by (simp add: getRecords_queryParams_def append_def Let_def)

lemma getRecords_endpoint_cases:
  "req_endpoint (getRecords p) =
     ''/records'' @ (if getRecords_queryParams p = [] then []
                     else ''?'' @ toString (getRecords_queryParams p))"
  using toString_nonempty [of "getRecords_queryParams p"]
  by (auto simp: getRecords_def getRecords_endpoint_def Let_def toString_def)

text \<open>
  Claim C10. A query parameter of \<open>getRecords\<close> is in the request exactly when the field
  of that name is truthy: a missing field, an empty string and the number 0 give no
  parameter, and when no field is truthy the endpoint is the bare \<open>/records\<close>.
\<close>

theorem getRecords_parameter_iff_truthy:
  "(''commune'' \<in> fst ` set (getRecords_queryParams p) \<longleftrightarrow> truthy (q_commune p)) \<and>
   (''region'' \<in> fst ` set (getRecords_queryParams p) \<longleftrightarrow> truthy (q_region p)) \<and>
   (''annee'' \<in> fst ` set (getRecords_queryParams p) \<longleftrightarrow> truthy (q_annee p)) \<and>
   (''page'' \<in> fst ` set (getRecords_queryParams p) \<longleftrightarrow> truthy (q_page p)) \<and>
   (''page_size'' \<in> fst ` set (getRecords_queryParams p) \<longleftrightarrow> truthy (q_page_size p)) \<and>
   fst ` set (getRecords_queryParams p)
     \<subseteq> {''commune'', ''region'', ''annee'', ''page'', ''page_size''} \<and>
   req_endpoint (getRecords p) =
     ''/records'' @ (if getRecords_queryParams p = [] then []
                     else ''?'' @ toString (getRecords_queryParams p)) \<and>
   (req_endpoint (getRecords p) = ''/records'' \<longleftrightarrow>
      \<not> (truthy (q_commune p) \<or> truthy (q_region p) \<or> truthy (q_annee p)
         \<or> truthy (q_page p) \<or> truthy (q_page_size p))) \<and>
   \<not> truthy Undefined \<and> \<not> truthy (Str []) \<and> \<not> truthy (Num 0)"
proof -
  have keys:
    "(''commune'' \<in> fst ` set (getRecords_queryParams p) \<longleftrightarrow> truthy (q_commune p)) \<and>
     (''region'' \<in> fst ` set (getRecords_queryParams p) \<longleftrightarrow> truthy (q_region p)) \<and>
     (''annee'' \<in> fst ` set (getRecords_queryParams p) \<longleftrightarrow> truthy (q_annee p)) \<and>
     (''page'' \<in> fst ` set (getRecords_queryParams p) \<longleftrightarrow> truthy (q_page p)) \<and>
     (''page_size'' \<in> fst ` set (getRecords_queryParams p) \<longleftrightarrow> truthy (q_page_size p))"
    by (simp add: getRecords_queryParams_filter)
  have only:
    "fst ` set (getRecords_queryParams p)
       \<subseteq> {''commune'', ''region'', ''annee'', ''page'', ''page_size''}"
    by (simp add: getRecords_queryParams_filter)
  have empty: "getRecords_queryParams p = [] \<longleftrightarrow>
      \<not> (truthy (q_commune p) \<or> truthy (q_region p) \<or> truthy (q_annee p)
         \<or> truthy (q_page p) \<or> truthy (q_page_size p))"
    by (simp add: getRecords_queryParams_filter)
  have bare: "req_endpoint (getRecords p) = ''/records'' \<longleftrightarrow> getRecords_queryParams p = []"
    by (simp add: getRecords_endpoint_cases)
  show ?thesis
    using keys only empty bare getRecords_endpoint_cases [of p] by simp
qed

lemma show_int_digits:
  "show_int 0 = ''0''" "show_int 1 = ''1''" "show_int 20 = ''20''" "show_int 500 = ''500''"
  by (simp_all add: show_int_def digit_char_def)

text \<open>
  An instance: page 0, an empty region and a missing commune are left out, the year
  and the page size are sent.
\<close>

theorem getRecords_parameter_iff_truthy_witness:
  "req_endpoint (getRecords \<lparr>q_commune = Undefined, q_region = Str [], q_annee = Str ''2020'',
                              q_page = Num 0, q_page_size = Num 20\<rparr>)
     = ''/records?annee=2020&page_size=20'' \<and>
   req_endpoint (getRecords \<lparr>q_commune = Undefined, q_region = Str [], q_annee = Num 0,
                              q_page = Num 0, q_page_size = Null\<rparr>) = ''/records''"
proof -
  have q: "getRecords_queryParams \<lparr>q_commune = Undefined, q_region = Str [],
             q_annee = Str ''2020'', q_page = Num 0, q_page_size = Num 20\<rparr>
           = [(''annee'', ''2020''), (''page_size'', ''20'')]"
    by (simp add: getRecords_queryParams_filter show_int_digits)
  have e: "getRecords_queryParams \<lparr>q_commune = Undefined, q_region = Str [],
             q_annee = Num 0, q_page = Num 0, q_page_size = Null\<rparr> = []"
    by (simp add: getRecords_queryParams_filter)
  have s: "toString [(''annee'', ''2020''), (''page_size'', ''20'')] = ''annee=2020&page_size=20''"
    by (simp add: toString_def form_encode_def alnum_def)
  show ?thesis
    using getRecords_parameter_iff_truthy
            [of "\<lparr>q_commune = Undefined, q_region = Str [], q_annee = Str ''2020'',
                  q_page = Num 0, q_page_size = Num 20\<rparr>"]
          getRecords_parameter_iff_truthy
            [of "\<lparr>q_commune = Undefined, q_region = Str [], q_annee = Num 0,
                  q_page = Num 0, q_page_size = Null\<rparr>"]
    by (simp add: q e s)
qed

lemma encodeURIComponent_unescaped:
  "set s \<subseteq> set uri_unescaped \<Longrightarrow> encodeURIComponent s = s"
  by (induction s) (simp_all add: encodeURIComponent_def)

lemma digit_char_unescaped: "d < 10 \<Longrightarrow> digit_char d \<in> set uri_unescaped"
proof -
  assume "d < 10"
  then have "d \<in> {0, 1, 2, 3, 4, 5, 6, 7, 8, 9}" by auto
  then show ?thesis
    by (auto simp: digit_char_def uri_unescaped_def alnum_def)
qed

lemma show_nat_unescaped: "set (show_nat n) \<subseteq> set uri_unescaped"
proof (induction n rule: show_nat.induct)
  case (1 n)
  show ?case
  proof (cases "n < 10")
    case True
    then show ?thesis by (subst show_nat.simps) (simp add: digit_char_unescaped)
  next
    case False
    then have "set (show_nat (n div 10)) \<subseteq> set uri_unescaped" by (rule "1.IH")
    moreover have "digit_char (n mod 10) \<in> set uri_unescaped"
      by (rule digit_char_unescaped) simp
    ultimately show ?thesis using False by (subst show_nat.simps) simp
  qed
qed

lemma show_int_unescaped: "set (show_int i) \<subseteq> set uri_unescaped"
proof -
  have "CHR ''-'' \<in> set uri_unescaped" by (simp add: uri_unescaped_def)
  then show ?thesis using show_nat_unescaped by (simp add: show_int_def)
qed

text \<open>
  A number needs no escaping: for a numeric identifier the path built without
  \<open>encodeURIComponent\<close> is the encoded one.
\<close>

lemma numeric_identifier_unchanged:
  "encodeURIComponent (to_string (Num n)) = to_string (Num n)"
  by (simp add: encodeURIComponent_unescaped show_int_unescaped)

text \<open>
  Claim C9. Every client function that puts an identifier of the caller into the path
  percent-encodes it. \<open>getRegionStats\<close> and \<open>getCommuneStats\<close> do;
  \<open>getRecordById\<close>, \<open>updateRecord\<close>, \<open>deleteRecord\<close> and \<open>getPollutantTrend\<close> put
  the identifier into the path as it is, so that a slash in it makes a further path
  segment.
\<close>

theorem path_identifiers_left_unencoded:
  "req_endpoint (getPollutantTrend (Str ''no2/2020'')
                   \<lparr>t_region = Undefined, t_commune = Undefined\<rparr>) = ''/trends/no2/2020'' \<and>
   req_endpoint (getRecordById (Str ''7/8'')) = ''/records/7/8'' \<and>
   req_endpoint (updateRecord (Str ''7/8'') updateData) = ''/records/7/8'' \<and>
   req_endpoint (deleteRecord (Str ''7/8'')) = ''/records/7/8'' \<and>
   encodeURIComponent ''no2/2020'' = ''no2%2F2020'' \<and>
   encodeURIComponent ''7/8'' = ''7%2F8'' \<and>
   req_endpoint (getRegionStats (Str ''7/8'') Null) = ''/stats/region/7%2F8'' \<and>
   req_endpoint (getCommuneStats (Str ''7/8'')) = ''/stats/commune/7%2F8''"
  by (simp add: getPollutantTrend_def getRecordById_def updateRecord_def deleteRecord_def
        getRegionStats_def getCommuneStats_def toString_def encodeURIComponent_def
        uri_unescaped_def alnum_def pct_def hex_digit_def)




section \<open>Properties of the colour coding and of the trend analysis\<close>

lemma thresholds_ordered: "map_of thresholds p = Some t \<Longrightarrow> low t \<le> high t"
  by (auto simp: thresholds_def split: if_splits)

text \<open>
  Claim C7. For a pollutant with thresholds \<open>low\<close> and \<open>high\<close> the colour is the good
  one (green) exactly when the value is at most \<open>low\<close>, the moderate one (yellow)
  exactly when it is above \<open>low\<close> and at most \<open>high\<close>, the poor one (red) exactly when
  it is above \<open>high\<close>; for \<open>no2\<close>, with 20 and 40, the values 15, 30 and 50 are good,
  moderate and poor.
\<close>

theorem getColorForValue_thresholds:
  "map_of thresholds p = Some t \<Longrightarrow>
   (getColorForValue v p = ''#22c55e'' \<longleftrightarrow> v \<le> low t) \<and>
   (getColorForValue v p = ''#f59e0b'' \<longleftrightarrow> low t < v \<and> v \<le> high t) \<and>
   (getColorForValue v p = ''#ef4444'' \<longleftrightarrow> high t < v) \<and>
   map_of thresholds ''no2'' = Some \<lparr>low = 20, high = 40\<rparr> \<and>
   getColorForValue 15 ''no2'' = ''#22c55e'' \<and>
   getColorForValue 30 ''no2'' = ''#f59e0b'' \<and>
   getColorForValue 50 ''no2'' = ''#ef4444''"
proof -
  assume t: "map_of thresholds p = Some t"
  then have o: "low t \<le> high t" by (rule thresholds_ordered)
  have own: "lookup thresholds p = Own t" by (simp add: lookup_def t)
  have general: "(getColorForValue v p = ''#22c55e'' \<longleftrightarrow> v \<le> low t) \<and>
   (getColorForValue v p = ''#f59e0b'' \<longleftrightarrow> low t < v \<and> v \<le> high t) \<and>
   (getColorForValue v p = ''#ef4444'' \<longleftrightarrow> high t < v)"
    using o by (auto simp: getColorForValue_def own)
  have no2: "map_of thresholds ''no2'' = Some \<lparr>low = 20, high = 40\<rparr>"
    by (simp add: thresholds_def)
  have "getColorForValue 15 ''no2'' = ''#22c55e''" "getColorForValue 30 ''no2'' = ''#f59e0b''"
    "getColorForValue 50 ''no2'' = ''#ef4444''"
    by (simp_all add: getColorForValue_def lookup_def no2)
  with general no2 show ?thesis by simp
qed

text \<open>An instance: 45 is the upper threshold of \<open>pm10\<close> and is still moderate.\<close>

theorem getColorForValue_thresholds_witness:
  "map_of thresholds ''pm10'' = Some \<lparr>low = 15, high = 45\<rparr> \<and>
   getColorForValue 45 ''pm10'' = ''#f59e0b'' \<and> getColorForValue 46 ''pm10'' = ''#ef4444''"
proof -
  have t: "map_of thresholds ''pm10'' = Some \<lparr>low = 15, high = 45\<rparr>"
    by (simp add: thresholds_def)
  show ?thesis
    using getColorForValue_thresholds [OF t, of 45] getColorForValue_thresholds [OF t, of 46] t
    by simp
qed

lemma round_tenths_values:
  "round_tenths (35 / 3) = 117" "round_tenths (67 / 2) = 335" "round_tenths 30 = 300"
  "round_tenths (127 / 4) = 318"
  by (simp_all add: round_tenths_def)

text \<open>
  Claim C8. For a series of two years with the values 30.0 and 33.5 the change is
  rendered as 11.7 (per cent) and the trend is the concerning increase, the branch of
  a change above 10.
\<close>

theorem analyzeTrend_concerning_increase:
  "analyzeTrend (Some [\<lparr>tp_annee = y1, tp_value = Some 30.0\<rparr>,
                       \<lparr>tp_annee = y2, tp_value = Some 33.5\<rparr>]) pollutant
     = Report \<lparr>heading = lookup pollutant_names pollutant,
                tendency = ConcerningIncrease (Tenths 117),
                average = Tenths 318, maximum = Tenths 335, minimum = Tenths 300,
                first_value = Tenths 300, last_value = Tenths 335\<rparr> \<and>
   toFixed (times_js (divide_js (33.5 - 30.0) 30.0) 100) = Tenths 117 \<and>
   fixed_greater (Tenths 117) 10 \<and> \<not> fixed_less (Tenths 117) 0"
  by (simp add: analyzeTrend_def divide_js_def Let_def round_tenths_values del: not_None_eq)

text \<open>An instance: nitrogen dioxide in 2020 and 2021.\<close>

theorem analyzeTrend_concerning_increase_witness:
  "analyzeTrend (Some [\<lparr>tp_annee = 2020, tp_value = Some 30.0\<rparr>,
                       \<lparr>tp_annee = 2021, tp_value = Some 33.5\<rparr>]) ''no2''
     = Report \<lparr>heading = Own NO2, tendency = ConcerningIncrease (Tenths 117),
                average = Tenths 318, maximum = Tenths 335, minimum = Tenths 300,
                first_value = Tenths 300, last_value = Tenths 335\<rparr>"
  using analyzeTrend_concerning_increase [of 2020 2021 "''no2''"]
  by (simp add: lookup_def pollutant_names_def)

section \<open>Properties of the application state\<close>


lemma assign_page_simps:
  "pagination (state (assign_page n a)) = (pagination (state a))\<lparr>page := n\<rparr>"
  "filters (state (assign_page n a)) = filters (state a)"
  "data (state (assign_page n a)) = data (state a)"
  "pending (assign_page n a) = pending a" "trace (assign_page n a) = trace a"
  "debounce_timer (assign_page n a) = debounce_timer a"
  by (simp_all add: assign_page_def)

lemma assign_filters_simps:
  "filters (state (assign_filters f a)) = f (filters (state a))"
  "pagination (state (assign_filters f a)) = pagination (state a)"
  "data (state (assign_filters f a)) = data (state a)"
  "pending (assign_filters f a) = pending a" "trace (assign_filters f a) = trace a"
  "debounce_timer (assign_filters f a) = debounce_timer a"
  by (simp_all add: assign_filters_def)

lemma loadRecords_simps:
  "state (loadRecords c a) = state a"
  "pending (loadRecords c a) = pending a @ [AwaitRecords (records_request (state a)) c]"
  "trace (loadRecords c a) = trace a @ [Request (records_request (state a))]"
  "debounce_timer (loadRecords c a) = debounce_timer a"
  by (simp_all add: loadRecords_def emit_def)

lemmas handler_defs =
  filter_region_change_def filter_year_change_def data_region_change_def
  search_commune_input_def debounce_later_def search_commune_handler_def
  btn_prev_click_def btn_next_click_def updateMapMarkers_def loadTrendData_def
  navigateTo_def initializeMap_def handleDeleteRecord_def

lemmas resumed_defs =
  settle_def checkApiStatus_resumed_def loadInitialData_def
  loadInitialData_resumed_def populateFilters_def loadRecords_resumed_def
  after_loadRecords_def updatePaginationInfo_def updateDataTable_def
  updateDashboardStats_def createDashboardCharts_def handleDeleteRecord_resumed_def
  loadTrendData_resumed_def

lemmas eval_defs = run_def startup_def started_def init_def AppState_def handler_defs
  resumed_defs emit_def loadRecords_def assign_page_def assign_filters_def
  records_request_def pagination_view_def

lemma ceil_pages_page [simp]: "ceil_pages (p\<lparr>page := n\<rparr>) = ceil_pages p"
  by (simp add: ceil_pages_def)

lemma ceil_pages_div: "ceil_pages p = - ((- total_count p) div pageSize p)"
  by (simp add: ceil_pages_def ceiling_divide_eq_div)

subsection \<open>What every event preserves\<close>





lemma started_eq:
  "state started =
     \<lparr>currentPage = ''dashboard'', data = [rec_A, rec_B], regions = [''A'', ''B''],
      years = [2020],
      summary = Some \<lparr>total_records = 45, total_communes = 2, total_regions = 2\<rparr>,
      pagination = \<lparr>page = 1, pageSize = 20, total_count = 45\<rparr>,
      filters = \<lparr>region = [], year = [], commune = []\<rparr>,
      map_obj = False, mapMarkers = []\<rparr>"
  "pending started = []" "debounce_timer started = None"
  by (simp_all add: eval_defs Let_def)

subsection \<open>Filters\<close>

text \<open>
  Claim C2. Each handler that changes a field of the filter (the region and year
  selectors of the dashboard, the region selector of the data page, the commune search
  once its timer runs out) has set the page to 1 when it calls \<open>loadRecords\<close>: the
  state from which the request is built has page 1, the request asks for page 1, and
  the page is 1 after the handler.
\<close>

theorem filter_change_resets_page:
  "e = FilterRegionChange v \<or> e = FilterYearChange v \<or> e = DataRegionChange v
     \<or> (e = DebounceTimeout \<and> debounce_timer a = Some v) \<Longrightarrow>
   page (pagination (state (step e a))) = 1 \<and>
   (\<exists>cont b. step e a = loadRecords cont b \<and> page (pagination (state b)) = 1) \<and>
   effects_of e a =
     [Request (getRecords
        \<lparr>q_commune = Str (commune (filters (state (step e a)))),
         q_region = Str (region (filters (state (step e a)))),
         q_annee = Str (year (filters (state (step e a)))),
         q_page = Num 1,
         q_page_size = Num (pageSize (pagination (state a)))\<rparr>)] \<and>
   (e = FilterRegionChange v \<or> e = DataRegionChange v
      \<longrightarrow> region (filters (state (step e a))) = v) \<and>
   (e = FilterYearChange v \<longrightarrow> year (filters (state (step e a))) = v) \<and>
   (e = DebounceTimeout \<longrightarrow> commune (filters (state (step e a))) = v)"
proof -
  assume e: "e = FilterRegionChange v \<or> e = FilterYearChange v \<or> e = DataRegionChange v
     \<or> (e = DebounceTimeout \<and> debounce_timer a = Some v)"
  have ex: "\<exists>cont b. loadRecords c (assign_page 1 x) = loadRecords cont b
              \<and> page (pagination (state b)) = 1" for c x
    by (intro exI conjI) (rule refl, simp add: assign_page_simps)
  from e show ?thesis
    by (elim disjE conjE)
       (simp_all add: handler_defs effects_of_def loadRecords_simps assign_page_simps
          assign_filters_simps records_request_def ex)
qed

text \<open>
  An instance: on page 2, the year is chosen on the dashboard, and the commune search
  fires.
\<close>

theorem filter_change_resets_page_witness:
  "page (pagination (state (step NextClick started))) = 2 \<and>
   page (pagination (state (step (FilterYearChange ''2020'') (step NextClick started)))) = 1 \<and>
   debounce_timer (step (SearchCommuneInput ''Ren'') (step NextClick started)) = Some ''Ren'' \<and>
   page (pagination (state (step DebounceTimeout
           (step (SearchCommuneInput ''Ren'') (step NextClick started))))) = 1"
proof -
  let ?a = "step NextClick started"
  let ?b = "step (SearchCommuneInput ''Ren'') ?a"
  have p: "page (pagination (state ?a)) = 2"
    by (simp add: btn_next_click_def started_eq ceil_pages_div loadRecords_simps
          assign_page_simps)
  have t: "debounce_timer ?b = Some ''Ren''"
    by (simp add: search_commune_input_def)
  show ?thesis
    using filter_change_resets_page [of "FilterYearChange ''2020''" "''2020''" ?a]
          filter_change_resets_page [of DebounceTimeout "''Ren''" ?b] p t
    by simp
qed

subsection \<open>Pagination\<close>





subsection \<open>A failed fetch\<close>

text \<open>
  Claim C4. When the fetch of \<open>loadRecords\<close> fails, the records and the total (indeed
  all of \<open>AppState\<close>) and the table on screen stay as they were, the error is logged
  and the error toast is shown, and \<open>loadRecords\<close> returns: whoever awaited it goes
  on.
\<close>

theorem failed_fetch_keeps_page:
  "i < length (pending a) \<Longrightarrow> pending a ! i = AwaitRecords request cont \<Longrightarrow>
   state (step (Settle i (Records (Inl error))) a) = state a \<and>
   data (state (step (Settle i (Records (Inl error))) a)) = data (state a) \<and>
   total_count (pagination (state (step (Settle i (Records (Inl error))) a)))
     = total_count (pagination (state a)) \<and>
   rendered_page (step (Settle i (Records (Inl error))) a) = rendered_page a \<and>
   loadRecords_resumed (Inl error) a
     = emit [Log (ConsoleError ''Error loading records:'' error),
             ShowToast RecordsLoadFailed ToastError] a \<and>
   step (Settle i (Records (Inl error))) a
     = after_loadRecords cont
         (loadRecords_resumed (Inl error)
            (a\<lparr>pending := take i (pending a) @ drop (Suc i) (pending a)\<rparr>)) \<and>
   take 2 (effects_of (Settle i (Records (Inl error))) a)
     = [Log (ConsoleError ''Error loading records:'' error),
        ShowToast RecordsLoadFailed ToastError]"
  by (cases cont)
     (simp_all add: settle_def loadRecords_resumed_def after_loadRecords_def emit_def
        updateDashboardStats_def createDashboardCharts_def effects_of_def rendered_page_def)

lemma two_requests_eq:
  "pending two_requests
     = [AwaitRecords request_A DashboardViews, AwaitRecords request_B DashboardViews]"
  "data (state two_requests) = [rec_A, rec_B]"
  "filters (state two_requests) = \<lparr>region = ''B'', year = [], commune = []\<rparr>"
  by (simp_all add: two_requests_def run_def filter_region_change_def loadRecords_simps
        assign_page_simps assign_filters_simps records_request_def started_eq
        request_A_def request_B_def)

text \<open>
  An instance: the first of two pending fetches fails; the two records loaded at the
  start stay, and the dashboard handler that awaited the fetch redraws its views.
\<close>

theorem failed_fetch_keeps_page_witness:
  "pending two_requests ! 0 = AwaitRecords request_A DashboardViews \<and>
   data (state (step (Settle 0 (Records (Inl (Error ''HTTP error! status: 500'')))) two_requests))
     = [rec_A, rec_B] \<and>
   total_count (pagination (state
      (step (Settle 0 (Records (Inl (Error ''HTTP error! status: 500'')))) two_requests)))
     = total_count (pagination (state two_requests))"
proof -
  have i: "0 < length (pending two_requests)"
    and p: "pending two_requests ! 0 = AwaitRecords request_A DashboardViews"
    by (simp_all add: two_requests_eq)
  from failed_fetch_keeps_page [OF i p, of "Error ''HTTP error! status: 500''"]
  have "data (state (step (Settle 0 (Records (Inl (Error ''HTTP error! status: 500''))))
                 two_requests)) = data (state two_requests)"
    "total_count (pagination (state
        (step (Settle 0 (Records (Inl (Error ''HTTP error! status: 500'')))) two_requests)))
       = total_count (pagination (state two_requests))"
    by blast+
  with p show ?thesis by (simp add: two_requests_eq)
qed

subsection \<open>Replies out of order\<close>

lemma settle_records:
  "i < length (pending a) \<Longrightarrow> pending a ! i = AwaitRecords q c \<Longrightarrow>
   rendered_page (settle i (Records (Inr r)) a) = Some (r_data r) \<and>
   data (state (settle i (Records (Inr r)) a)) = r_data r \<and>
   total_count (pagination (state (settle i (Records (Inr r)) a))) = r_total r \<and>
   filters (state (settle i (Records (Inr r)) a)) = filters (state a) \<and>
   pending (settle i (Records (Inr r)) a) = take i (pending a) @ drop (Suc i) (pending a)"
  by (cases c)
     (simp_all add: settle_def loadRecords_resumed_def after_loadRecords_def emit_def
        updateDataTable_def updatePaginationInfo_def updateDashboardStats_def
        createDashboardCharts_def rendered_page_def Let_def)

text \<open>
  Claim C1, as amended. A fetch carries no sequence number and no reply is discarded:
  each successful reply replaces the records and is drawn. For two fetches pending at
  once, the page on screen after both replies is the one of the reply that came last,
  whichever request was issued last: that of the first request when the replies come
  out of order, that of the second when they come in order.
\<close>

theorem last_resolved_wins:
  "pending a = ps @ [AwaitRecords q1 c1, AwaitRecords q2 c2] \<Longrightarrow>
   (let out_of_order = run [Settle (Suc (length ps)) (Records (Inr r2)),
                            Settle (length ps) (Records (Inr r1))] a;
        in_order = run [Settle (length ps) (Records (Inr r1)),
                        Settle (length ps) (Records (Inr r2))] a
    in data (state out_of_order) = r_data r1 \<and>
       rendered_page out_of_order = Some (r_data r1) \<and>
       total_count (pagination (state out_of_order)) = r_total r1 \<and>
       data (state in_order) = r_data r2 \<and>
       rendered_page in_order = Some (r_data r2) \<and>
       total_count (pagination (state in_order)) = r_total r2)"
proof -
  assume p: "pending a = ps @ [AwaitRecords q1 c1, AwaitRecords q2 c2]"
  let ?n = "length ps"
  let ?b = "settle (Suc ?n) (Records (Inr r2)) a"
  let ?c = "settle ?n (Records (Inr r1)) a"
  have b: "pending ?b = ps @ [AwaitRecords q1 c1]"
    using settle_records [of "Suc ?n" a q2 c2 r2] p by (simp add: nth_append)
  have c: "pending ?c = ps @ [AwaitRecords q2 c2]"
    using settle_records [of ?n a q1 c1 r1] p by (simp add: nth_append)
  have "?n < length (pending ?b)" "pending ?b ! ?n = AwaitRecords q1 c1"
    by (simp_all add: b)
  from settle_records [OF this, of r1]
  have 1: "rendered_page (settle ?n (Records (Inr r1)) ?b) = Some (r_data r1)"
    "data (state (settle ?n (Records (Inr r1)) ?b)) = r_data r1"
    "total_count (pagination (state (settle ?n (Records (Inr r1)) ?b))) = r_total r1"
    by simp_all
  have "?n < length (pending ?c)" "pending ?c ! ?n = AwaitRecords q2 c2"
    by (simp_all add: c)
  from settle_records [OF this, of r2]
  have 2: "rendered_page (settle ?n (Records (Inr r2)) ?c) = Some (r_data r2)"
    "data (state (settle ?n (Records (Inr r2)) ?c)) = r_data r2"
    "total_count (pagination (state (settle ?n (Records (Inr r2)) ?c))) = r_total r2"
    by simp_all
  show ?thesis using 1 2 by (simp add: run_def Let_def)
qed

text \<open>
  An instance: the two region changes; when the replies come in order the page is the
  one of region B.
\<close>

theorem last_resolved_wins_witness:
  "pending two_requests
     = [] @ [AwaitRecords request_A DashboardViews, AwaitRecords request_B DashboardViews] \<and>
   data (state (run [Settle 0 (Records (Inr page_A)), Settle 0 (Records (Inr page_B))]
                  two_requests)) = [rec_B] \<and>
   data (state (run [Settle 1 (Records (Inr page_B)), Settle 0 (Records (Inr page_A))]
                  two_requests)) = [rec_A]"
proof -
  have l: "pending two_requests
     = [] @ [AwaitRecords request_A DashboardViews, AwaitRecords request_B DashboardViews]"
    by (simp add: two_requests_eq)
  show ?thesis
    using last_resolved_wins [OF l, of page_B page_A] l
    by (simp add: Let_def page_A_def page_B_def)
qed

text \<open>
  Claim C1 as stated fails: the region is changed to A and then to B, the reply for B
  comes first and the reply for A second. The filter says B, the last request issued
  is the one for B, and the table shows the records of A.
\<close>

theorem stale_reply_overwrites_page:
  "pending two_requests
     = [AwaitRecords request_A DashboardViews, AwaitRecords request_B DashboardViews] \<and>
   req_endpoint request_A = ''/records?region=A&page=1&page_size=20'' \<and>
   req_endpoint request_B = ''/records?region=B&page=1&page_size=20'' \<and>
   region (filters (state (run [Settle 1 (Records (Inr page_B)),
                                Settle 0 (Records (Inr page_A))] two_requests))) = ''B'' \<and>
   rendered_page (run [Settle 1 (Records (Inr page_B)), Settle 0 (Records (Inr page_A))]
                    two_requests) = Some [rec_A] \<and>
   data (state (run [Settle 1 (Records (Inr page_B)), Settle 0 (Records (Inr page_A))]
                  two_requests)) = [rec_A] \<and>
   [rec_A] \<noteq> r_data page_B"
proof -
  let ?b = "settle (Suc 0) (Records (Inr page_B)) two_requests"
  have "Suc 0 < length (pending two_requests)"
    "pending two_requests ! Suc 0 = AwaitRecords request_B DashboardViews"
    by (simp_all add: two_requests_eq)
  from settle_records [OF this, of page_B]
  have b: "pending ?b = [AwaitRecords request_A DashboardViews]"
    "filters (state ?b) = \<lparr>region = ''B'', year = [], commune = []\<rparr>"
    by (simp_all add: two_requests_eq)
  have "0 < length (pending ?b)" "pending ?b ! 0 = AwaitRecords request_A DashboardViews"
    by (simp_all add: b)
  from settle_records [OF this, of page_A]
  have r: "rendered_page (settle 0 (Records (Inr page_A)) ?b) = Some [rec_A]"
    "data (state (settle 0 (Records (Inr page_A)) ?b)) = [rec_A]"
    "region (filters (state (settle 0 (Records (Inr page_A)) ?b))) = ''B''"
    by (simp_all add: page_A_def b)
  have e: "req_endpoint request_A = ''/records?region=A&page=1&page_size=20''"
    "req_endpoint request_B = ''/records?region=B&page=1&page_size=20''"
    by (simp_all add: request_A_def request_B_def getRecords_endpoint_cases
          getRecords_queryParams_filter toString_def form_encode_def alnum_def
          show_int_digits)
  have d: "[rec_A] \<noteq> r_data page_B" by (simp add: page_B_def rec_A_def rec_B_def)
  show ?thesis
    using r e d by (simp add: run_def two_requests_eq)
qed

subsection \<open>Views redrawn after a filter change\<close>

text \<open>
  Claim C5, as amended. The region and year selectors of the dashboard have the
  dashboard views redrawn after the load, the region selector of the data page and the
  commune search have not. When the fetch succeeds, the table and the pagination line
  are redrawn; for the dashboard selectors the stat cards are redrawn too, and the two
  charts when the page of records is not empty. No filter handler redraws the map
  markers, and none fills the selectors again.
\<close>

theorem views_redrawn_after_filter_change:
  "(\<exists>q. pending (step (FilterRegionChange v) a) = pending a @ [AwaitRecords q DashboardViews]) \<and>
   (\<exists>q. pending (step (FilterYearChange v) a) = pending a @ [AwaitRecords q DashboardViews]) \<and>
   (\<exists>q. pending (step (DataRegionChange v) a) = pending a @ [AwaitRecords q NoFollowUp]) \<and>
   (debounce_timer a = Some v \<longrightarrow>
      (\<exists>q. pending (step DebounceTimeout a) = pending a @ [AwaitRecords q NoFollowUp])) \<and>
   (i < length (pending a) \<and> pending a ! i = AwaitRecords request cont \<longrightarrow>
      effects_of (Settle i (Records (Inr r))) a =
        [UpdateDataTable (r_data r),
         UpdatePaginationInfo
           (pagination_view (pagination (state (step (Settle i (Records (Inr r))) a))))]
        @ (case cont of
             NoFollowUp \<Rightarrow> []
           | DashboardViews \<Rightarrow>
               UpdateDashboardStats (r_data r) (summary (state a))
               # (if r_data r = [] then []
                  else [CreateEvolutionChart (r_data r), CreateRegionsChart (r_data r)])
           | InitialViews \<Rightarrow>
               UpdateDashboardStats (r_data r) (summary (state a))
               # (if r_data r = [] then []
                  else [CreateEvolutionChart (r_data r), CreateRegionsChart (r_data r)])
               @ [ShowLoading False]) \<and>
      mapMarkers (state (step (Settle i (Records (Inr r))) a)) = mapMarkers (state a))"
proof -
  have 1: "i < length (pending a) \<and> pending a ! i = AwaitRecords request cont \<longrightarrow>
      effects_of (Settle i (Records (Inr r))) a =
        [UpdateDataTable (r_data r),
         UpdatePaginationInfo
           (pagination_view (pagination (state (step (Settle i (Records (Inr r))) a))))]
        @ (case cont of
             NoFollowUp \<Rightarrow> []
           | DashboardViews \<Rightarrow>
               UpdateDashboardStats (r_data r) (summary (state a))
               # (if r_data r = [] then []
                  else [CreateEvolutionChart (r_data r), CreateRegionsChart (r_data r)])
           | InitialViews \<Rightarrow>
               UpdateDashboardStats (r_data r) (summary (state a))
               # (if r_data r = [] then []
                  else [CreateEvolutionChart (r_data r), CreateRegionsChart (r_data r)])
               @ [ShowLoading False]) \<and>
      mapMarkers (state (step (Settle i (Records (Inr r))) a)) = mapMarkers (state a)"
    by (cases cont)
       (simp_all add: effects_of_def settle_def loadRecords_resumed_def after_loadRecords_def
          updateDataTable_def updatePaginationInfo_def updateDashboardStats_def
          createDashboardCharts_def emit_def)
  have 2:
    "(\<exists>q. pending (step (FilterRegionChange v) a) = pending a @ [AwaitRecords q DashboardViews]) \<and>
     (\<exists>q. pending (step (FilterYearChange v) a) = pending a @ [AwaitRecords q DashboardViews]) \<and>
     (\<exists>q. pending (step (DataRegionChange v) a) = pending a @ [AwaitRecords q NoFollowUp]) \<and>
     (debounce_timer a = Some v \<longrightarrow>
        (\<exists>q. pending (step DebounceTimeout a) = pending a @ [AwaitRecords q NoFollowUp]))"
    by (simp add: handler_defs loadRecords_simps assign_page_simps assign_filters_simps)
  from 1 2 show ?thesis by blast
qed

lemma on_map_eq:
  "state on_map =
     \<lparr>currentPage = ''map'', data = [rec_A, rec_B], regions = [''A'', ''B''],
      years = [2020],
      summary = Some \<lparr>total_records = 45, total_communes = 2, total_regions = 2\<rparr>,
      pagination = \<lparr>page = 1, pageSize = 20, total_count = 45\<rparr>,
      filters = \<lparr>region = [], year = [], commune = []\<rparr>,
      map_obj = True,
      mapMarkers =
        [\<lparr>position = (48.1, - 1.7), fillColor = ''#22c55e'', popup = (rec_A, ''no2'', 15)\<rparr>,
         \<lparr>position = (45.8, 4.8), fillColor = ''#f59e0b'', popup = (rec_B, ''no2'', 30)\<rparr>]\<rparr>"
  "pending on_map = []" "debounce_timer on_map = None"
  by (simp_all add: on_map_def navigateTo_def initializeMap_def updateMapMarkers_def
        emit_def started_eq map_controls_def Let_def present_def reading_def rec_A_def
        rec_B_def getColorForValue_def lookup_def thresholds_def)

lemma pagination_view_one:
  "pagination_view \<lparr>page = 1, pageSize = 20, total_count = 1\<rparr>
     = \<lparr>shown_page = 1, shown_maxPage = 1, shown_total = 1,
        prev_disabled = True, next_disabled = True\<rparr>"
  by (simp add: pagination_view_def ceil_pages_div)

text \<open>
  An instance: the commune search on the data page; only the table and the pagination
  line are redrawn.
\<close>

theorem views_redrawn_after_filter_change_witness:
  "debounce_timer (step (SearchCommuneInput ''Ren'') on_map) = Some ''Ren'' \<and>
   effects_of (Settle 0 (Records (Inr page_A)))
              (run [SearchCommuneInput ''Ren'', DebounceTimeout] on_map)
     = [UpdateDataTable [rec_A],
        UpdatePaginationInfo \<lparr>shown_page = 1, shown_maxPage = 1, shown_total = 1,
                              prev_disabled = True, next_disabled = True\<rparr>]"
proof -
  let ?a = "step (SearchCommuneInput ''Ren'') on_map"
  let ?b = "step DebounceTimeout ?a"
  have t: "debounce_timer ?a = Some ''Ren''" by (simp add: search_commune_input_def)
  have pa: "pending ?a = []" by (simp add: search_commune_input_def on_map_eq)
  from views_redrawn_after_filter_change [of "''Ren''" ?a] t pa
  obtain q where q: "pending ?b = [AwaitRecords q NoFollowUp]" by auto
  then have h: "0 < length (pending ?b) \<and> pending ?b ! 0 = AwaitRecords q NoFollowUp"
    by simp
  have s: "pagination (state (settle 0 (Records (Inr page_A)) ?b))
             = \<lparr>page = 1, pageSize = 20, total_count = 1\<rparr>"
    by (simp add: q settle_def loadRecords_resumed_def after_loadRecords_def
          updateDataTable_def updatePaginationInfo_def emit_def debounce_later_def
          search_commune_input_def search_commune_handler_def loadRecords_simps
          assign_page_simps assign_filters_simps on_map_eq page_A_def)
  have d: "r_data page_A = [rec_A]" by (simp add: page_A_def)
  show ?thesis
    using views_redrawn_after_filter_change [of "''Ren''" ?b 0 q NoFollowUp page_A] h t s
    by (simp add: run_def pagination_view_one d)
qed

text \<open>
  Claim C5 as stated fails. With the map open, a change of the region on the data page
  redraws the table and the pagination line and nothing else; a change of the region
  on the dashboard also redraws the stat cards and the charts, and the map keeps the
  markers of the records that were replaced until a map selector is changed.
\<close>

theorem filter_change_skips_views:
  "map_obj (state on_map) \<and>
   effects_of (Settle 0 (Records (Inr page_A))) (step (DataRegionChange ''A'') on_map) =
     [UpdateDataTable [rec_A],
      UpdatePaginationInfo \<lparr>shown_page = 1, shown_maxPage = 1, shown_total = 1,
                            prev_disabled = True, next_disabled = True\<rparr>] \<and>
   effects_of (Settle 0 (Records (Inr page_A))) (step (FilterRegionChange ''A'') on_map) =
     [UpdateDataTable [rec_A],
      UpdatePaginationInfo \<lparr>shown_page = 1, shown_maxPage = 1, shown_total = 1,
                            prev_disabled = True, next_disabled = True\<rparr>,
      UpdateDashboardStats [rec_A]
        (Some \<lparr>total_records = 45, total_communes = 2, total_regions = 2\<rparr>),
      CreateEvolutionChart [rec_A], CreateRegionsChart [rec_A]] \<and>
   data (state (run [FilterRegionChange ''A'', Settle 0 (Records (Inr page_A))] on_map))
     = [rec_A] \<and>
   map fillColor (mapMarkers (state
       (run [FilterRegionChange ''A'', Settle 0 (Records (Inr page_A))] on_map)))
     = [''#22c55e'', ''#f59e0b''] \<and>
   map fillColor (mapMarkers (state
       (run [FilterRegionChange ''A'', Settle 0 (Records (Inr page_A)),
             MapControlChange map_controls] on_map)))
     = [''#22c55e'']"
proof -
  have m: "map_obj (state on_map)" by (simp add: on_map_eq)
  have d: "effects_of (Settle 0 (Records (Inr page_A))) (step (DataRegionChange ''A'') on_map) =
     [UpdateDataTable [rec_A],
      UpdatePaginationInfo \<lparr>shown_page = 1, shown_maxPage = 1, shown_total = 1,
                            prev_disabled = True, next_disabled = True\<rparr>]"
    by (simp add: effects_of_def data_region_change_def loadRecords_def emit_def
          assign_page_def assign_filters_def on_map_eq settle_def loadRecords_resumed_def
          after_loadRecords_def updateDataTable_def updatePaginationInfo_def
          pagination_view_one page_A_def)
  have f: "effects_of (Settle 0 (Records (Inr page_A))) (step (FilterRegionChange ''A'') on_map) =
     [UpdateDataTable [rec_A],
      UpdatePaginationInfo \<lparr>shown_page = 1, shown_maxPage = 1, shown_total = 1,
                            prev_disabled = True, next_disabled = True\<rparr>,
      UpdateDashboardStats [rec_A]
        (Some \<lparr>total_records = 45, total_communes = 2, total_regions = 2\<rparr>),
      CreateEvolutionChart [rec_A], CreateRegionsChart [rec_A]]"
    by (simp add: effects_of_def filter_region_change_def loadRecords_def emit_def
          assign_page_def assign_filters_def on_map_eq settle_def loadRecords_resumed_def
          after_loadRecords_def updateDataTable_def updatePaginationInfo_def
          updateDashboardStats_def createDashboardCharts_def pagination_view_one page_A_def)
  let ?c = "run [FilterRegionChange ''A'', Settle 0 (Records (Inr page_A))] on_map"
  have c: "data (state ?c) = [rec_A]" "map_obj (state ?c)"
    "map fillColor (mapMarkers (state ?c)) = [''#22c55e'', ''#f59e0b'']"
    by (simp_all add: run_def filter_region_change_def loadRecords_def emit_def
          assign_page_def assign_filters_def on_map_eq settle_def loadRecords_resumed_def
          after_loadRecords_def updateDataTable_def updatePaginationInfo_def
          updateDashboardStats_def createDashboardCharts_def page_A_def)
  have u: "map fillColor (mapMarkers (state (step (MapControlChange map_controls) ?c)))
             = [''#22c55e'']"
    using c(1,2)
    by (simp add: updateMapMarkers_def emit_def map_controls_def Let_def present_def
          reading_def rec_A_def getColorForValue_def lookup_def thresholds_def)
  have "run [FilterRegionChange ''A'', Settle 0 (Records (Inr page_A)),
             MapControlChange map_controls] on_map = step (MapControlChange map_controls) ?c"
    by (simp add: run_def)
  with m d f c u show ?thesis by simp
qed

end
